theory Spec2Isabelle
  imports Complex_Main
begin

section \<open>The license handler of the desktop shell (src/main/license-handler.ts)\<close>

text \<open>
  The class \<open>LicenseHandler\<close> owns one mutable field, \<open>storedLicense\<close>, and one file,
  \<open>LICENSE_FILE\<close>. Every method is modelled as a function from the state before the call
  to the state after it, the list of effects it performed (HTTP requests sent, lines
  written to the console) and the value it returns. Time stamps are milliseconds since
  the epoch (\<open>int\<close>); a JavaScript \<open>number\<close> that comes out of JSON is a finite double and
  is modelled by the rational it denotes.
\<close>

subsection \<open>Data model\<close>

record LicenseInfo =
  license_key :: string
  customer_name :: string
  customer_email :: string
  plan_price :: rat
  plan_type :: string
  features :: "string list"
  expires_at :: string
  days_remaining :: rat
  activated_at :: "string option"

record StoredLicense =
  key :: string
  hardwareId :: string
  licenseInfo :: LicenseInfo
  lastVerified :: string
  activatedAt :: string

text \<open>
  The state of a handler: the private field \<open>storedLicense\<close> (\<open>None\<close> is \<open>null\<close>) and the
  content of the file at \<open>LICENSE_FILE\<close> (\<open>None\<close> when \<open>fs.existsSync\<close> is false).
\<close>

record handler =
  storedLicense :: "StoredLicense option"
  LICENSE_FILE :: "string option"

text \<open>A call that may throw: the \<open>try\<close> blocks of the source catch \<open>Throws\<close>.\<close>

datatype 'a attempt = Throws | Returns 'a

subsection \<open>The platform: Node, the operating system and the license server\<close>

text \<open>
  The functions of Node's \<open>crypto\<close>, \<open>JSON\<close> and \<open>Date\<close> that the handler calls are not
  code of the repository; they are parameters of the model. \<open>cipher alg k iv text\<close> is
  \<open>createCipheriv(alg, k, iv)\<close> followed by \<open>update(text, 'utf8', 'hex') + final('hex')\<close>,
  \<open>decipher alg k iv enc\<close> is \<open>createDecipheriv(alg, k, iv)\<close> followed by
  \<open>update(enc, 'hex', 'utf8') + final('utf8')\<close>, which throws on a bad length or padding.
  \<open>Date_parse s\<close> is \<open>new Date(s).getTime()\<close>, with \<open>None\<close> for \<open>NaN\<close> (an invalid date);
  \<open>toISOString t\<close> is \<open>new Date(t).toISOString()\<close>.
\<close>

record platform =
  sha256_hex :: "string \<Rightarrow> string"
  scryptSync :: "string \<Rightarrow> string \<Rightarrow> nat \<Rightarrow> nat list"
  cipher :: "string \<Rightarrow> nat list \<Rightarrow> nat list \<Rightarrow> string \<Rightarrow> string"
  decipher :: "string \<Rightarrow> nat list \<Rightarrow> nat list \<Rightarrow> string \<Rightarrow> string attempt"
  JSON_stringify :: "StoredLicense \<Rightarrow> string"
  JSON_parse :: "string \<Rightarrow> StoredLicense option attempt"
  Date_parse :: "string \<Rightarrow> int option"
  toISOString :: "int \<Rightarrow> string"

text \<open>One entry of \<open>os.networkInterfaces()[name]\<close>, and what \<open>os\<close> and \<open>app\<close> report.\<close>

record net =
  internal :: bool
  mac :: string

record host =
  cpus :: "string list"
  hostname :: string
  networkInterfaces :: "(string \<times> net list) list"
  os_type :: string
  os_release :: string
  APP_VERSION :: string

text \<open>
  The three requests the handler posts, and what \<open>axios.post\<close> does with each: it resolves
  with a body whose \<open>success\<close> is true and that carries \<open>data\<close>, resolves with a body whose
  \<open>success\<close> is false and that may carry \<open>message\<close>, rejects with an \<open>error.response\<close>
  (status, \<open>data.code\<close>, \<open>data.message\<close>), or rejects with no response at all (timeout,
  connection failure).
\<close>

datatype request =
  Activate string string string string string
| Verify string string string
| Deactivate string string

datatype reply =
  Success LicenseInfo
| Failure "string option"
| ErrorResponse nat "string option" "string option"
| NoResponse

datatype effect = Post request | ConsoleError string

record verify_result =
  valid :: bool
  message :: string
  info :: "LicenseInfo option"

record activate_result =
  a_valid :: bool
  a_message :: string
  a_data :: "LicenseInfo option"

record deactivate_result =
  success :: bool
  d_message :: string

text \<open>\<open>m || d\<close> on an optional string: \<open>undefined\<close> and the empty string are falsy.\<close>

definition or_default :: "string option \<Rightarrow> string \<Rightarrow> string" where
  "or_default m d = (case m of None \<Rightarrow> d | Some s \<Rightarrow> if s = [] then d else s)"

subsection \<open>getHardwareId and the device information\<close>

text \<open>The inner loop: the first entry that is not internal and whose MAC is not all zero.\<close>

fun scan_nets :: "net list \<Rightarrow> string \<Rightarrow> string" where
  "scan_nets [] m = m"
| "scan_nets (n # ns) m =
     (if \<not> internal n \<and> mac n \<noteq> ''00:00:00:00:00:00'' then mac n else scan_nets ns m)"

text \<open>The outer loop, left as soon as \<open>mac\<close> is a non-empty string.\<close>

fun scan_interfaces :: "(string \<times> net list) list \<Rightarrow> string \<Rightarrow> string" where
  "scan_interfaces [] m = m"
| "scan_interfaces ((name, nets) # rest) m =
     (let m' = scan_nets nets m in if m' \<noteq> [] then m' else scan_interfaces rest m')"

definition getHardwareId :: "platform \<Rightarrow> host \<Rightarrow> string" where
  "getHardwareId P h =
     (let cpuModel = (case cpus h of [] \<Rightarrow> [] | c # _ \<Rightarrow> c);
          m = scan_interfaces (networkInterfaces h) [];
          combined = cpuModel @ ''-'' @ hostname h @ ''-'' @ m
      in sha256_hex P combined)"

text \<open>\<open>device_name\<close>, \<open>os_info\<close> and \<open>app_version\<close>, in this order.\<close>

definition getDeviceInfo :: "host \<Rightarrow> string \<times> string \<times> string" where
  "getDeviceInfo h = (hostname h, os_type h @ '' '' @ os_release h, APP_VERSION h)"

subsection \<open>The license store: encrypt, decrypt, save, load\<close>

definition encrypt :: "platform \<Rightarrow> string \<Rightarrow> string" where
  "encrypt P text =
     (let k = scryptSync P ''license-encryption-key'' ''salt'' 32;
          iv = replicate 16 0
      in cipher P ''aes-256-cbc'' k iv text)"

definition decrypt :: "platform \<Rightarrow> string \<Rightarrow> string attempt" where
  "decrypt P encrypted =
     (let k = scryptSync P ''license-encryption-key'' ''salt'' 32;
          iv = replicate 16 0
      in decipher P ''aes-256-cbc'' k iv encrypted)"

definition saveStoredLicense :: "platform \<Rightarrow> handler \<Rightarrow> handler" where
  "saveStoredLicense P st =
     (case storedLicense st of
        None \<Rightarrow> st
      | Some r \<Rightarrow> st\<lparr>LICENSE_FILE := Some (encrypt P (JSON_stringify P r))\<rparr>)"

definition loadStoredLicense :: "platform \<Rightarrow> handler \<Rightarrow> handler \<times> effect list" where
  "loadStoredLicense P st =
     (case LICENSE_FILE st of
        None \<Rightarrow> (st, [])
      | Some encrypted \<Rightarrow>
          (case decrypt P encrypted of
             Throws \<Rightarrow> (st\<lparr>storedLicense := None\<rparr>, [ConsoleError ''Failed to load license:''])
           | Returns decrypted \<Rightarrow>
               (case JSON_parse P decrypted of
                  Throws \<Rightarrow>
                    (st\<lparr>storedLicense := None\<rparr>, [ConsoleError ''Failed to load license:''])
                | Returns v \<Rightarrow> (st\<lparr>storedLicense := v\<rparr>, []))))"

text \<open>
  The constructor: the field initialiser sets \<open>storedLicense\<close> to \<open>null\<close>, then the file
  found on disk is loaded. (The timer it starts calls \<open>verifyLicense(true)\<close> every 24
  hours, which is one of the steps of \<open>reachable\<close> below.)
\<close>

definition new_LicenseHandler :: "platform \<Rightarrow> string option \<Rightarrow> handler \<times> effect list" where
  "new_LicenseHandler P disk = loadStoredLicense P \<lparr>storedLicense = None, LICENSE_FILE = disk\<rparr>"

subsection \<open>activateLicense\<close>

text \<open>
  \<open>t_verified\<close> and \<open>t_activated\<close> are the two readings of the clock, for \<open>lastVerified\<close>
  and \<open>activatedAt\<close>.
\<close>

definition activateLicense ::
  "platform \<Rightarrow> host \<Rightarrow> (request \<Rightarrow> reply) \<Rightarrow> int \<Rightarrow> int \<Rightarrow> string \<Rightarrow> handler
     \<Rightarrow> handler \<times> effect list \<times> activate_result" where
  "activateLicense P h server t_verified t_activated licenseKey st =
     (let hw = getHardwareId P h;
          (device_name, os_info, app_version) = getDeviceInfo h;
          req = Activate licenseKey hw device_name os_info app_version
      in case server req of
           Success d \<Rightarrow>
             (saveStoredLicense P
                (st\<lparr>storedLicense := Some \<lparr>key = licenseKey, hardwareId = hw, licenseInfo = d,
                       lastVerified = toISOString P t_verified, activatedAt = toISOString P t_activated\<rparr>\<rparr>),
              [Post req],
              \<lparr>a_valid = True, a_message = ''License activated successfully'',
               a_data = Some d\<rparr>)
         | Failure m \<Rightarrow>
             (st, [Post req],
              \<lparr>a_valid = False, a_message = or_default m ''Activation failed'', a_data = None\<rparr>)
         | ErrorResponse status c m \<Rightarrow>
             (st, [Post req, ConsoleError ''License activation error:''],
              \<lparr>a_valid = False, a_message = or_default m ''Activation failed'', a_data = None\<rparr>)
         | NoResponse \<Rightarrow>
             (st, [Post req, ConsoleError ''License activation error:''],
              \<lparr>a_valid = False,
               a_message = ''Unable to connect to license server. Please check your internet connection.'',
               a_data = None\<rparr>))"

subsection \<open>deactivateLicense\<close>

text \<open>
  The reply to the notification is only looked at to decide whether the \<open>catch\<close> block
  logs; the local license is cleared after either.
\<close>

definition rejected :: "reply \<Rightarrow> bool" where
  "rejected rp = (case rp of Success _ \<Rightarrow> False | Failure _ \<Rightarrow> False | _ \<Rightarrow> True)"

definition deactivateLicense ::
  "platform \<Rightarrow> host \<Rightarrow> (request \<Rightarrow> reply) \<Rightarrow> handler
     \<Rightarrow> handler \<times> effect list \<times> deactivate_result" where
  "deactivateLicense P h server st =
     (case storedLicense st of
        None \<Rightarrow> (st, [], \<lparr>success = False, d_message = ''No license found''\<rparr>)
      | Some r \<Rightarrow>
          (let req = Deactivate (key r) (getHardwareId P h);
               log = (if rejected (server req)
                      then [ConsoleError ''Failed to notify server about deactivation:'']
                      else [])
           in (st\<lparr>storedLicense := None, LICENSE_FILE := None\<rparr>,
               Post req # log,
               \<lparr>success = True, d_message = ''License deactivated''\<rparr>)))"

subsection \<open>verifyLicense\<close>

text \<open>
  \<open>expiryDate < new Date()\<close>: a comparison with an invalid date (\<open>NaN\<close>) is false.
\<close>

definition date_before :: "int option \<Rightarrow> int \<Rightarrow> bool" where
  "date_before d now = (case d of None \<Rightarrow> False | Some e \<Rightarrow> e < now)"

text \<open>
  The offline fallback at the end of the \<open>catch\<close> block. \<open>hoursSinceVerification\<close> is
  \<open>NaN\<close> when \<open>lastVerified\<close> is not a date, and \<open>NaN < 72\<close> is false. The source
  divides in double precision; rounding is monotone and 72 is a double, and the nearest
  quotient of a whole number of milliseconds below 72 is further from 72 than the
  spacing of doubles there, so the comparison with 72 comes out as it does on the exact
  quotient, which is what is written here.
\<close>

definition offline_fallback :: "platform \<Rightarrow> int \<Rightarrow> StoredLicense \<Rightarrow> verify_result" where
  "offline_fallback P now r =
     (case Date_parse P (lastVerified r) of
        None \<Rightarrow>
          \<lparr>valid = False,
           message = ''Unable to verify license. Please connect to the internet.'',
           info = None\<rparr>
      | Some lv \<Rightarrow>
          (let hoursSinceVerification = (rat_of_int (now - lv)) / (1000 * 60 * 60)
           in if hoursSinceVerification < 72
              then \<lparr>valid = True, message = ''License valid (offline mode)'',
                    info = Some (licenseInfo r)\<rparr>
              else \<lparr>valid = False,
                    message = ''Unable to verify license. Please connect to the internet.'',
                    info = None\<rparr>))"

text \<open>
  \<open>t_check\<close> is the clock at the local expiry check, \<open>t_reply\<close> the clock once the request has
  resolved or been rejected.
\<close>

definition verifyLicense ::
  "platform \<Rightarrow> host \<Rightarrow> (request \<Rightarrow> reply) \<Rightarrow> int \<Rightarrow> int \<Rightarrow> bool \<Rightarrow> handler
     \<Rightarrow> handler \<times> effect list \<times> verify_result" where
  "verifyLicense P h server t_check t_reply silent st =
     (case storedLicense st of
        None \<Rightarrow> (st, [], \<lparr>valid = False, message = ''No license found'', info = None\<rparr>)
      | Some r \<Rightarrow>
          (let currentHardwareId = getHardwareId P h in
           if hardwareId r \<noteq> currentHardwareId
           then (st, [],
                 \<lparr>valid = False, message = ''License is bound to different hardware'',
                  info = None\<rparr>)
           else if date_before (Date_parse P (expires_at (licenseInfo r))) t_check
           then (st, [], \<lparr>valid = False, message = ''License has expired'', info = None\<rparr>)
           else
             (let req = Verify (key r) currentHardwareId (APP_VERSION h) in
              case server req of
                Success d \<Rightarrow>
                  (saveStoredLicense P
                     (st\<lparr>storedLicense :=
                           Some (r\<lparr>licenseInfo := d, lastVerified := toISOString P t_reply\<rparr>)\<rparr>),
                   [Post req],
                   \<lparr>valid = True, message = ''License is valid'', info = Some d\<rparr>)
              | Failure m \<Rightarrow>
                  (let (st', eff) =
                         (if \<not> silent
                          then (case deactivateLicense P h server st of (s, e, _) \<Rightarrow> (s, e))
                          else (st, []))
                   in (st', Post req # eff,
                       \<lparr>valid = False,
                        message = or_default m ''License verification failed'',
                        info = None\<rparr>))
              | ErrorResponse status c m \<Rightarrow>
                  (if status = 404 \<and> c = Some ''INVALID''
                   then (st, [Post req, ConsoleError ''License verification error:''],
                         \<lparr>valid = False, message = or_default m ''Invalid license'',
                          info = None\<rparr>)
                   else (st, [Post req, ConsoleError ''License verification error:''],
                         offline_fallback P t_reply r))
              | NoResponse \<Rightarrow>
                  (st, [Post req, ConsoleError ''License verification error:''],
                   offline_fallback P t_reply r))))"

subsection \<open>hasFeature and needsRenewal\<close>

text \<open>\<open>Array.prototype.includes\<close>: a scan from the front, comparing each element.\<close>

fun array_includes :: "'a list \<Rightarrow> 'a \<Rightarrow> bool" where
  "array_includes [] x = False"
| "array_includes (y # ys) x = (if y = x then True else array_includes ys x)"

text \<open>
  The optional chain \<open>this.storedLicense?.licenseInfo?.features?.includes(feature)\<close> is
  \<open>undefined\<close> when there is no stored license, and \<open>undefined || false\<close> is \<open>false\<close>.
\<close>

definition hasFeature :: "handler \<Rightarrow> string \<Rightarrow> bool" where
  "hasFeature st feature =
     (case storedLicense st of
        None \<Rightarrow> False
      | Some r \<Rightarrow> array_includes (features (licenseInfo r)) feature)"

text \<open>\<open>daysThreshold = 30\<close>: the default applies when the argument is left out.\<close>

definition needsRenewal :: "handler \<Rightarrow> rat option \<Rightarrow> bool" where
  "needsRenewal st daysThreshold =
     (case storedLicense st of
        None \<Rightarrow> False
      | Some r \<Rightarrow>
          days_remaining (licenseInfo r) \<le> (case daysThreshold of None \<Rightarrow> 30 | Some d \<Rightarrow> d))"

subsection \<open>What is on disk, and the states a handler can be in\<close>

text \<open>
  The record a handler started now would find: what the constructor loads from the
  current content of \<open>LICENSE_FILE\<close>.
\<close>

definition persisted :: "platform \<Rightarrow> handler \<Rightarrow> StoredLicense option" where
  "persisted P st = storedLicense (fst (new_LicenseHandler P (LICENSE_FILE st)))"

text \<open>
  A file that cannot be decrypted, or that decrypts to something \<open>JSON.parse\<close> rejects.
\<close>

definition corrupt :: "platform \<Rightarrow> string \<Rightarrow> bool" where
  "corrupt P encrypted =
     (case decrypt P encrypted of
        Throws \<Rightarrow> True
      | Returns decrypted \<Rightarrow>
          (case JSON_parse P decrypted of Throws \<Rightarrow> True | Returns _ \<Rightarrow> False))"

text \<open>
  The states of a handler: the one its constructor leaves, and those that any sequence
  of calls of the three public methods that change state leads to, whatever the host,
  the server and the clock do.
\<close>

inductive reachable :: "platform \<Rightarrow> handler \<Rightarrow> bool" for P :: platform where
  start: "reachable P (fst (new_LicenseHandler P disk))"
| activate: "reachable P st \<Longrightarrow> reachable P (fst (activateLicense P h server t_verified t_activated licenseKey st))"
| verify: "reachable P st \<Longrightarrow> reachable P (fst (verifyLicense P h server t_check t_reply silent st))"
| deactivate: "reachable P st \<Longrightarrow> reachable P (fst (deactivateLicense P h server st))"

subsection \<open>A test installation\<close>

text \<open>
  Concrete data on which the theorems below are run: one license, verified on
  2025-01-01 and expiring on 2025-02-01, two hosts, and a small platform whose cipher
  and JSON codec are toys with the same interface as Node's (the cipher reverses the
  text behind a marker, the codec knows one record and \<open>null\<close>, the date parser knows the
  three dates used).
\<close>

definition info_1 :: LicenseInfo where
  "info_1 =
     \<lparr>license_key = ''ABC-123'', customer_name = ''Cafe One'',
      customer_email = ''owner@cafe.example'', plan_price = 49, plan_type = ''pro'',
      features = [''export''], expires_at = ''2025-02-01T00:00:00.000Z'',
      days_remaining = 31, activated_at = None\<rparr>"

definition license_1 :: StoredLicense where
  "license_1 =
     \<lparr>key = ''ABC-123'', hardwareId = ''sha256:CPU-A-till-1-aa:bb:cc:dd:ee:01'',
      licenseInfo = info_1, lastVerified = ''2025-01-01T00:00:00.000Z'',
      activatedAt = ''2025-01-01T00:00:00.000Z''\<rparr>"

definition license_2 :: StoredLicense where
  "license_2 = license_1\<lparr>lastVerified := ''2025-01-31T00:00:00.000Z''\<rparr>"

definition test_platform :: platform where
  "test_platform =
     \<lparr>sha256_hex = (\<lambda>s. ''sha256:'' @ s),
      scryptSync = (\<lambda>password salt n. replicate n 7),
      cipher = (\<lambda>alg k iv text. CHR ''x'' # rev text),
      decipher = (\<lambda>alg k iv enc.
         case enc of [] \<Rightarrow> Throws
         | c # cs \<Rightarrow> if c = CHR ''x'' then Returns (rev cs) else Throws),
      JSON_stringify = (\<lambda>r. if r = license_1 then ''{key:ABC-123}'' else ''{}''),
      JSON_parse = (\<lambda>s. if s = ''{key:ABC-123}'' then Returns (Some license_1)
                         else if s = ''null'' then Returns None else Throws),
      Date_parse = map_of
        [(''2025-01-01T00:00:00.000Z'', 1735689600000),
         (''2025-01-31T00:00:00.000Z'', 1738281600000),
         (''2025-02-01T00:00:00.000Z'', 1738368000000)],
      toISOString = (\<lambda>t. if t = 1735689600000 then ''2025-01-01T00:00:00.000Z'' else [])\<rparr>"

definition host_1 :: host where
  "host_1 =
     \<lparr>cpus = [''CPU-A''], hostname = ''till-1'',
      networkInterfaces =
        [(''lo'', [\<lparr>internal = True, mac = ''00:00:00:00:00:00''\<rparr>]),
         (''eth0'', [\<lparr>internal = False, mac = ''aa:bb:cc:dd:ee:01''\<rparr>])],
      os_type = ''Linux'', os_release = ''6.1'', APP_VERSION = ''1.0.0''\<rparr>"

definition host_2 :: host where
  "host_2 = host_1\<lparr>hostname := ''till-2''\<rparr>"

definition activated_1 :: handler where
  "activated_1 = \<lparr>storedLicense = Some license_1, LICENSE_FILE = Some ''x}321-CBA:yek{''\<rparr>"

text \<open>A server that cannot be reached.\<close>

definition unreachable :: "request \<Rightarrow> reply" where
  "unreachable req = NoResponse"


text \<open>Three servers: one that grants, one that rejects, one that answers 404.\<close>

definition granting :: "request \<Rightarrow> reply" where
  "granting req = Success info_1"

definition rejecting :: "request \<Rightarrow> reply" where
  "rejecting req = Failure (Some ''License revoked'')"

definition not_found :: "request \<Rightarrow> reply" where
  "not_found req = ErrorResponse 404 (Some ''INVALID'') (Some ''License key not recognised'')"

section \<open>Properties\<close>

subsection \<open>Auxiliary facts\<close>

text \<open>
  The division by \<open>1000 * 60 * 60\<close> and the comparison with 72 amount to comparing the
  elapsed milliseconds with 259200000.
\<close>

lemma hours_lt_72: "(rat_of_int d / (1000 * 60 * 60) < 72) = (d < 259200000)"
proof -
  have "(rat_of_int d / (1000 * 60 * 60) < 72) = (rat_of_int d < rat_of_int 259200000)"
    by (simp add: divide_less_eq)
  also have "\<dots> = (d < 259200000)"
    by (simp only: of_int_less_iff)
  finally show ?thesis .
qed

lemma offline_fallback_ms:
  "Date_parse P (lastVerified r) = Some lv \<Longrightarrow>
   offline_fallback P now r =
     (if now - lv < 259200000
      then \<lparr>valid = True, message = ''License valid (offline mode)'',
            info = Some (licenseInfo r)\<rparr>
      else \<lparr>valid = False,
            message = ''Unable to verify license. Please connect to the internet.'',
            info = None\<rparr>)"
  by (simp add: offline_fallback_def hours_lt_72 del: of_int_diff)

text \<open>What each method does to the state, and what the constructor leaves on disk.\<close>

lemma new_LicenseHandler_file: "LICENSE_FILE (fst (new_LicenseHandler P disk)) = disk"
  by (simp add: new_LicenseHandler_def loadStoredLicense_def
      split: option.splits attempt.splits)

lemma persisted_new:
  "persisted P (fst (new_LicenseHandler P disk)) = storedLicense (fst (new_LicenseHandler P disk))"
  by (simp add: persisted_def new_LicenseHandler_file)

lemma persisted_no_file: "LICENSE_FILE st = None \<Longrightarrow> persisted P st = None"
  by (simp add: persisted_def new_LicenseHandler_def loadStoredLicense_def)

lemma saveStoredLicense_stored: "storedLicense (saveStoredLicense P st) = storedLicense st"
  by (simp add: saveStoredLicense_def split: option.splits)

lemma deactivateLicense_state:
  "fst (deactivateLicense P h server st) =
     (case storedLicense st of
        None \<Rightarrow> st
      | Some r \<Rightarrow> st\<lparr>storedLicense := None, LICENSE_FILE := None\<rparr>)"
  by (simp add: deactivateLicense_def Let_def split: option.splits)

lemma activateLicense_state:
  "fst (activateLicense P h server tv ta k st) = st
   \<or> storedLicense (fst (activateLicense P h server tv ta k st)) \<noteq> None"
  by (simp add: activateLicense_def Let_def saveStoredLicense_stored
      split: reply.splits prod.splits)

lemma verifyLicense_state:
  "fst (verifyLicense P h server tc tr silent st) = st
   \<or> storedLicense (fst (verifyLicense P h server tc tr silent st)) \<noteq> None
   \<or> fst (verifyLicense P h server tc tr silent st) = fst (deactivateLicense P h server st)"
  by (auto simp add: verifyLicense_def Let_def saveStoredLicense_stored
      split: option.splits reply.splits prod.splits)

lemma reachable_absent_on_disk:
  "reachable P st \<Longrightarrow> storedLicense st = None \<Longrightarrow> persisted P st = None"
proof (induction rule: reachable.induct)
  case (start disk)
  then show ?case by (simp add: persisted_new)
next
  case (activate st h server t_verified t_activated licenseKey)
  from activateLicense_state [of P h server t_verified t_activated licenseKey st]
  show ?case using activate by auto
next
  case (verify st h server t_check t_reply silent)
  from verifyLicense_state [of P h server t_check t_reply silent st]
  show ?case using verify
    by (auto simp add: deactivateLicense_state persisted_no_file split: option.splits)
next
  case (deactivate st h server)
  then show ?case
    by (auto simp add: deactivateLicense_state persisted_no_file split: option.splits)
qed

text \<open>\<open>decrypt\<close> undoes \<open>encrypt\<close> when the decipher undoes the cipher: both derive the
  same key and use the same algorithm and initialisation vector.\<close>

lemma decrypt_encrypt:
  "\<forall>alg k iv s. decipher P alg k iv (cipher P alg k iv s) = Returns s
   \<Longrightarrow> decrypt P (encrypt P s) = Returns s"
  by (simp add: decrypt_def encrypt_def)

lemma includes_set: "array_includes xs x = (x \<in> set xs)"
  by (induction xs) auto

text \<open>The test installation, evaluated.\<close>

lemma hw_1: "getHardwareId test_platform host_1 = ''sha256:CPU-A-till-1-aa:bb:cc:dd:ee:01''"
  by (simp add: getHardwareId_def test_platform_def host_1_def)

lemma hw_2: "getHardwareId test_platform host_2 = ''sha256:CPU-A-till-2-aa:bb:cc:dd:ee:01''"
  by (simp add: getHardwareId_def test_platform_def host_1_def host_2_def)

lemma parse_expiry_1:
  "Date_parse test_platform (expires_at (licenseInfo license_1)) = Some 1738368000000"
  by (simp add: test_platform_def license_1_def info_1_def)

lemma parse_verified_1:
  "Date_parse test_platform (lastVerified license_1) = Some 1735689600000"
  by (simp add: test_platform_def license_1_def)

lemma parse_expiry_2:
  "Date_parse test_platform (expires_at (licenseInfo license_2)) = Some 1738368000000"
  by (simp add: test_platform_def license_1_def license_2_def info_1_def)

lemma parse_verified_2:
  "Date_parse test_platform (lastVerified license_2) = Some 1738281600000"
  by (simp add: test_platform_def license_2_def)

lemma local_checks_1:
  "\<not> date_before (Date_parse test_platform (expires_at (licenseInfo license_1))) 1735776000000"
  by (simp add: parse_expiry_1 date_before_def)

lemma activate_fresh_install:
  "fst (activateLicense test_platform host_1 granting 1735689600000 1735689600000 ''ABC-123''
     (fst (new_LicenseHandler test_platform None))) = activated_1"
  by (simp add: activateLicense_def granting_def hw_1 saveStoredLicense_def encrypt_def
      new_LicenseHandler_def loadStoredLicense_def activated_1_def license_1_def
      getDeviceInfo_def)
    (simp add: test_platform_def license_1_def Let_def)

lemma test_cipher_inverse:
  "\<forall>alg k iv s. decipher test_platform alg k iv (cipher test_platform alg k iv s) = Returns s"
  by (simp add: test_platform_def)

lemma test_json_inverse:
  "JSON_parse test_platform (JSON_stringify test_platform license_1) = Returns (Some license_1)"
  by (simp add: test_platform_def)

lemma corrupt_garbage: "corrupt test_platform ''garbage''"
  by (simp add: corrupt_def decrypt_def test_platform_def)

lemma corrupt_not_json: "corrupt test_platform ''x}traeh''"
  by (simp add: corrupt_def decrypt_def test_platform_def)

subsection \<open>verifyLicense\<close>

text \<open>
  C1. Take a stored license bound to this machine whose expiry \<open>e\<close> has not passed when
  the local check reads the clock, and let the verify request be rejected with no
  response (the server is unreachable). Then the stored state is left as it is, and the
  result is decided by the milliseconds between \<open>lastVerified\<close> and the clock read in
  the \<open>catch\<close> block: strictly fewer than 72 hours give a valid result carrying the
  cached \<open>licenseInfo\<close>, and 72 hours or more (exactly 72 included) give an invalid
  result that asks to reconnect.
\<close>

theorem offline_grace_72_hours:
  assumes "storedLicense st = Some r"
    and "hardwareId r = getHardwareId P h"
    and "Date_parse P (expires_at (licenseInfo r)) = Some e"
    and "t_check \<le> e"
    and "server (Verify (key r) (getHardwareId P h) (APP_VERSION h)) = NoResponse"
    and "Date_parse P (lastVerified r) = Some lv"
  shows "verifyLicense P h server t_check t_reply silent st =
           (st,
            [Post (Verify (key r) (getHardwareId P h) (APP_VERSION h)),
             ConsoleError ''License verification error:''],
            if t_reply - lv < 72 * (60 * 60 * 1000)
            then \<lparr>valid = True, message = ''License valid (offline mode)'',
                  info = Some (licenseInfo r)\<rparr>
            else \<lparr>valid = False,
                  message = ''Unable to verify license. Please connect to the internet.'',
                  info = None\<rparr>)"
  using assms by (simp add: verifyLicense_def date_before_def offline_fallback_ms)

text \<open>
  The test license, last verified on 2025-01-01T00:00:00Z, with the server unreachable:
  valid at 71 h 59 min, invalid at 72 h 00 min.
\<close>

theorem offline_grace_72_hours_witness:
  "storedLicense activated_1 = Some license_1
   \<and> hardwareId license_1 = getHardwareId test_platform host_1
   \<and> Date_parse test_platform (expires_at (licenseInfo license_1)) = Some 1738368000000
   \<and> unreachable (Verify (key license_1) (getHardwareId test_platform host_1)
        (APP_VERSION host_1)) = NoResponse
   \<and> Date_parse test_platform (lastVerified license_1) = Some 1735689600000
   \<and> snd (snd (verifyLicense test_platform host_1 unreachable
        1735948739000 1735948740000 True activated_1))
       = \<lparr>valid = True, message = ''License valid (offline mode)'',
          info = Some (licenseInfo license_1)\<rparr>
   \<and> snd (snd (verifyLicense test_platform host_1 unreachable
        1735948799000 1735948800000 True activated_1))
       = \<lparr>valid = False,
          message = ''Unable to verify license. Please connect to the internet.'',
          info = None\<rparr>"
proof -
  have a: "storedLicense activated_1 = Some license_1"
    by (simp add: activated_1_def)
  have b: "hardwareId license_1 = getHardwareId test_platform host_1"
    by (simp add: hw_1) (simp add: license_1_def)
  have c: "unreachable (Verify (key license_1) (getHardwareId test_platform host_1)
             (APP_VERSION host_1)) = NoResponse"
    by (simp add: unreachable_def)
  have d: "(1735948739000::int) \<le> 1738368000000" and d': "(1735948799000::int) \<le> 1738368000000"
    by simp_all
  note g1 = offline_grace_72_hours [where server = unreachable and silent = True
      and t_reply = 1735948740000, OF a b parse_expiry_1 d c parse_verified_1]
  note g2 = offline_grace_72_hours [where server = unreachable and silent = True
      and t_reply = 1735948800000, OF a b parse_expiry_1 d' c parse_verified_1]
  from g1 have v1: "snd (snd (verifyLicense test_platform host_1 unreachable
        1735948739000 1735948740000 True activated_1))
       = \<lparr>valid = True, message = ''License valid (offline mode)'',
          info = Some (licenseInfo license_1)\<rparr>"
    by simp
  from g2 have v2: "snd (snd (verifyLicense test_platform host_1 unreachable
        1735948799000 1735948800000 True activated_1))
       = \<lparr>valid = False,
          message = ''Unable to verify license. Please connect to the internet.'',
          info = None\<rparr>"
    by simp
  from a b c parse_expiry_1 parse_verified_1 v1 v2 show ?thesis by blast
qed

text \<open>
  C2. A stored license whose \<open>hardwareId\<close> differs from the fingerprint of the current
  machine is refused with the hardware message, with no request sent and no change of
  state, whatever the server would answer, the \<open>silent\<close> flag, the clock, the expiry
  date and the cached information are.
\<close>

theorem hardware_mismatch_terminal:
  assumes "storedLicense st = Some r"
    and "hardwareId r \<noteq> getHardwareId P h"
  shows "verifyLicense P h server t_check t_reply silent st =
           (st, [],
            \<lparr>valid = False, message = ''License is bound to different hardware'',
             info = None\<rparr>)"
  using assms by (simp add: verifyLicense_def)

text \<open>The test license, bound to the first host, verified on the second.\<close>

theorem hardware_mismatch_terminal_witness:
  "storedLicense activated_1 = Some license_1
   \<and> hardwareId license_1 \<noteq> getHardwareId test_platform host_2
   \<and> verifyLicense test_platform host_2 unreachable 1735689600001 1735689600002 False
        activated_1
       = (activated_1, [],
          \<lparr>valid = False, message = ''License is bound to different hardware'',
           info = None\<rparr>)"
proof -
  have a: "storedLicense activated_1 = Some license_1"
    by (simp add: activated_1_def)
  have b: "hardwareId license_1 \<noteq> getHardwareId test_platform host_2"
    by (simp add: hw_2) (simp add: license_1_def)
  from hardware_mismatch_terminal [OF a b] a b show ?thesis by blast
qed

text \<open>
  C3, as stated, fails at the boundary: \<open>expiryDate < new Date()\<close> is false when the clock
  reads exactly \<open>expires_at\<close>. At that instant the test license (verified the day
  before) passes the local check, the verify request is sent, and with the server
  unreachable the offline fallback answers valid.
\<close>

theorem expiry_boundary_counterexample:
  "Date_parse test_platform (expires_at (licenseInfo license_2)) = Some 1738368000000
   \<and> hardwareId license_2 = getHardwareId test_platform host_1
   \<and> verifyLicense test_platform host_1 unreachable 1738368000000 1738368000000 False
        \<lparr>storedLicense = Some license_2, LICENSE_FILE = None\<rparr>
       = (\<lparr>storedLicense = Some license_2, LICENSE_FILE = None\<rparr>,
          [Post (Verify ''ABC-123'' ''sha256:CPU-A-till-1-aa:bb:cc:dd:ee:01'' ''1.0.0''),
           ConsoleError ''License verification error:''],
          \<lparr>valid = True, message = ''License valid (offline mode)'',
           info = Some info_1\<rparr>)"
proof -
  have b: "hardwareId license_2 = getHardwareId test_platform host_1"
    by (simp add: hw_1) (simp add: license_1_def license_2_def)
  have k: "key license_2 = ''ABC-123''" "licenseInfo license_2 = info_1"
    by (simp_all add: license_1_def license_2_def)
  have v: "APP_VERSION host_1 = ''1.0.0''"
    by (simp add: host_1_def)
  have "verifyLicense test_platform host_1 unreachable 1738368000000 1738368000000 False
        \<lparr>storedLicense = Some license_2, LICENSE_FILE = None\<rparr>
       = (\<lparr>storedLicense = Some license_2, LICENSE_FILE = None\<rparr>,
          [Post (Verify ''ABC-123'' ''sha256:CPU-A-till-1-aa:bb:cc:dd:ee:01'' ''1.0.0''),
           ConsoleError ''License verification error:''],
          \<lparr>valid = True, message = ''License valid (offline mode)'',
           info = Some info_1\<rparr>)"
    by (simp add: verifyLicense_def b [symmetric] parse_expiry_2 date_before_def
        unreachable_def offline_fallback_ms [OF parse_verified_2] k(1) v hw_1 [symmetric])
      (simp add: k(2) license_1_def license_2_def)
  with b parse_expiry_2 show ?thesis by blast
qed

text \<open>
  C3, amended. A stored license bound to this machine whose expiry date is strictly
  earlier than the clock is refused with the expiry message, with no request sent and no
  change of state, whatever the server would answer and however recently the license was
  verified: the offline fallback is not reached.
\<close>

theorem expiry_terminal:
  assumes "storedLicense st = Some r"
    and "hardwareId r = getHardwareId P h"
    and "Date_parse P (expires_at (licenseInfo r)) = Some e"
    and "e < t_check"
  shows "verifyLicense P h server t_check t_reply silent st =
           (st, [], \<lparr>valid = False, message = ''License has expired'', info = None\<rparr>)"
  using assms by (simp add: verifyLicense_def date_before_def)

text \<open>The same license one millisecond after its expiry.\<close>

theorem expiry_terminal_witness:
  "storedLicense \<lparr>storedLicense = Some license_2, LICENSE_FILE = None\<rparr> = Some license_2
   \<and> hardwareId license_2 = getHardwareId test_platform host_1
   \<and> Date_parse test_platform (expires_at (licenseInfo license_2)) = Some 1738368000000
   \<and> (1738368000000::int) < 1738368000001
   \<and> verifyLicense test_platform host_1 unreachable 1738368000001 1738368000001 False
        \<lparr>storedLicense = Some license_2, LICENSE_FILE = None\<rparr>
       = (\<lparr>storedLicense = Some license_2, LICENSE_FILE = None\<rparr>, [],
          \<lparr>valid = False, message = ''License has expired'', info = None\<rparr>)"
proof -
  have a: "storedLicense \<lparr>storedLicense = Some license_2, LICENSE_FILE = None\<rparr>
             = Some license_2"
    by simp
  have b: "hardwareId license_2 = getHardwareId test_platform host_1"
    by (simp add: hw_1) (simp add: license_1_def license_2_def)
  have d: "(1738368000000::int) < 1738368000001"
    by simp
  from expiry_terminal [OF a b parse_expiry_2 d] a b parse_expiry_2 d
  show ?thesis by blast
qed

text \<open>
  C4. Take a stored license that passes both local checks and let the server answer the
  verify request with \<open>success: false\<close>. A call that is not silent runs
  \<open>deactivateLicense\<close> before it returns: the deactivate request follows the verify
  request, \<open>storedLicense\<close> is cleared and the file is deleted. A silent call sends the
  verify request only and leaves the state as it was. Both return invalid with the
  server's message (the default text when the body carries none).
\<close>

theorem server_rejection_deactivates_unless_silent:
  assumes "storedLicense st = Some r"
    and "hardwareId r = getHardwareId P h"
    and "\<not> date_before (Date_parse P (expires_at (licenseInfo r))) t_check"
    and "server (Verify (key r) (getHardwareId P h) (APP_VERSION h)) = Failure m"
  shows "verifyLicense P h server t_check t_reply False st =
           (fst (deactivateLicense P h server st),
            Post (Verify (key r) (getHardwareId P h) (APP_VERSION h))
              # fst (snd (deactivateLicense P h server st)),
            \<lparr>valid = False, message = or_default m ''License verification failed'',
             info = None\<rparr>)
    \<and> fst (deactivateLicense P h server st)
        = st\<lparr>storedLicense := None, LICENSE_FILE := None\<rparr>
    \<and> fst (snd (deactivateLicense P h server st))
        = Post (Deactivate (key r) (getHardwareId P h))
            # (if rejected (server (Deactivate (key r) (getHardwareId P h)))
               then [ConsoleError ''Failed to notify server about deactivation:'']
               else [])
    \<and> verifyLicense P h server t_check t_reply True st =
           (st, [Post (Verify (key r) (getHardwareId P h) (APP_VERSION h))],
            \<lparr>valid = False, message = or_default m ''License verification failed'',
             info = None\<rparr>)"
  using assms by (simp add: verifyLicense_def deactivateLicense_def Let_def)

text \<open>The test license, rejected by the server: not silent first, then silent.\<close>

theorem server_rejection_deactivates_unless_silent_witness:
  "storedLicense activated_1 = Some license_1
   \<and> hardwareId license_1 = getHardwareId test_platform host_1
   \<and> \<not> date_before (Date_parse test_platform (expires_at (licenseInfo license_1)))
         1735776000000
   \<and> rejecting (Verify (key license_1) (getHardwareId test_platform host_1)
        (APP_VERSION host_1)) = Failure (Some ''License revoked'')
   \<and> verifyLicense test_platform host_1 rejecting 1735776000000 1735776000100 False
        activated_1
       = (\<lparr>storedLicense = None, LICENSE_FILE = None\<rparr>,
          [Post (Verify ''ABC-123'' ''sha256:CPU-A-till-1-aa:bb:cc:dd:ee:01'' ''1.0.0''),
           Post (Deactivate ''ABC-123'' ''sha256:CPU-A-till-1-aa:bb:cc:dd:ee:01'')],
          \<lparr>valid = False, message = ''License revoked'', info = None\<rparr>)
   \<and> verifyLicense test_platform host_1 rejecting 1735776000000 1735776000100 True
        activated_1
       = (activated_1,
          [Post (Verify ''ABC-123'' ''sha256:CPU-A-till-1-aa:bb:cc:dd:ee:01'' ''1.0.0'')],
          \<lparr>valid = False, message = ''License revoked'', info = None\<rparr>)"
proof -
  have a: "storedLicense activated_1 = Some license_1"
    by (simp add: activated_1_def)
  have b: "hardwareId license_1 = getHardwareId test_platform host_1"
    by (simp add: hw_1) (simp add: license_1_def)
  have c: "rejecting (Verify (key license_1) (getHardwareId test_platform host_1)
             (APP_VERSION host_1)) = Failure (Some ''License revoked'')"
    by (simp add: rejecting_def)
  have k: "key license_1 = ''ABC-123''" "APP_VERSION host_1 = ''1.0.0''"
    by (simp_all add: license_1_def host_1_def)
  have e: "fst (snd (deactivateLicense test_platform host_1 rejecting activated_1))
             = [Post (Deactivate ''ABC-123'' ''sha256:CPU-A-till-1-aa:bb:cc:dd:ee:01'')]"
    by (simp add: deactivateLicense_def a hw_1 k rejecting_def rejected_def)
  have s: "activated_1\<lparr>storedLicense := None, LICENSE_FILE := None\<rparr>
             = \<lparr>storedLicense = None, LICENSE_FILE = None\<rparr>"
    by (simp add: activated_1_def)
  note t = server_rejection_deactivates_unless_silent [where server = rejecting
      and t_reply = 1735776000100, OF a b local_checks_1 c]
  from t have "verifyLicense test_platform host_1 rejecting 1735776000000 1735776000100 False
        activated_1
       = (\<lparr>storedLicense = None, LICENSE_FILE = None\<rparr>,
          [Post (Verify ''ABC-123'' ''sha256:CPU-A-till-1-aa:bb:cc:dd:ee:01'' ''1.0.0''),
           Post (Deactivate ''ABC-123'' ''sha256:CPU-A-till-1-aa:bb:cc:dd:ee:01'')],
          \<lparr>valid = False, message = ''License revoked'', info = None\<rparr>)"
    by (simp add: e s k hw_1 or_default_def)
  moreover from t have "verifyLicense test_platform host_1 rejecting 1735776000000 1735776000100 True
        activated_1
       = (activated_1,
          [Post (Verify ''ABC-123'' ''sha256:CPU-A-till-1-aa:bb:cc:dd:ee:01'' ''1.0.0'')],
          \<lparr>valid = False, message = ''License revoked'', info = None\<rparr>)"
    by (simp add: k hw_1 or_default_def)
  ultimately show ?thesis using a b c local_checks_1 by blast
qed

text \<open>
  C6. Take a stored license that passes both local checks and let the verify request
  fail with status 404 and \<open>code\<close> \<open>INVALID\<close>. Silent or not, and however recently the
  license was verified, the call returns invalid with the message of the response (the
  default text when it carries none); the only request is the verify request, and
  neither \<open>storedLicense\<close> nor the file changes.
\<close>

theorem invalid_key_404_no_deactivation:
  assumes "storedLicense st = Some r"
    and "hardwareId r = getHardwareId P h"
    and "\<not> date_before (Date_parse P (expires_at (licenseInfo r))) t_check"
    and "server (Verify (key r) (getHardwareId P h) (APP_VERSION h))
           = ErrorResponse 404 (Some ''INVALID'') m"
  shows "verifyLicense P h server t_check t_reply silent st =
           (st,
            [Post (Verify (key r) (getHardwareId P h) (APP_VERSION h)),
             ConsoleError ''License verification error:''],
            \<lparr>valid = False, message = or_default m ''Invalid license'', info = None\<rparr>)"
  using assms by (simp add: verifyLicense_def)

text \<open>The test license, answered with 404 and \<open>INVALID\<close>, not silent and silent.\<close>

theorem invalid_key_404_no_deactivation_witness:
  "storedLicense activated_1 = Some license_1
   \<and> hardwareId license_1 = getHardwareId test_platform host_1
   \<and> \<not> date_before (Date_parse test_platform (expires_at (licenseInfo license_1)))
         1735776000000
   \<and> not_found (Verify (key license_1) (getHardwareId test_platform host_1)
        (APP_VERSION host_1))
       = ErrorResponse 404 (Some ''INVALID'') (Some ''License key not recognised'')
   \<and> verifyLicense test_platform host_1 not_found 1735776000000 1735776000100 False
        activated_1
       = (activated_1,
          [Post (Verify ''ABC-123'' ''sha256:CPU-A-till-1-aa:bb:cc:dd:ee:01'' ''1.0.0''),
           ConsoleError ''License verification error:''],
          \<lparr>valid = False, message = ''License key not recognised'', info = None\<rparr>)
   \<and> verifyLicense test_platform host_1 not_found 1735776000000 1735776000100 True
        activated_1
       = (activated_1,
          [Post (Verify ''ABC-123'' ''sha256:CPU-A-till-1-aa:bb:cc:dd:ee:01'' ''1.0.0''),
           ConsoleError ''License verification error:''],
          \<lparr>valid = False, message = ''License key not recognised'', info = None\<rparr>)"
proof -
  have a: "storedLicense activated_1 = Some license_1"
    by (simp add: activated_1_def)
  have b: "hardwareId license_1 = getHardwareId test_platform host_1"
    by (simp add: hw_1) (simp add: license_1_def)
  have c: "not_found (Verify (key license_1) (getHardwareId test_platform host_1)
        (APP_VERSION host_1))
       = ErrorResponse 404 (Some ''INVALID'') (Some ''License key not recognised'')"
    by (simp add: not_found_def)
  have k: "key license_1 = ''ABC-123''" "APP_VERSION host_1 = ''1.0.0''"
    by (simp_all add: license_1_def host_1_def)
  note t = invalid_key_404_no_deactivation [where server = not_found
      and t_reply = 1735776000100, OF a b local_checks_1 c]
  have "verifyLicense test_platform host_1 not_found 1735776000000 1735776000100 False
        activated_1
       = (activated_1,
          [Post (Verify ''ABC-123'' ''sha256:CPU-A-till-1-aa:bb:cc:dd:ee:01'' ''1.0.0''),
           ConsoleError ''License verification error:''],
          \<lparr>valid = False, message = ''License key not recognised'', info = None\<rparr>)"
    using t [of False] by (simp add: k hw_1 or_default_def)
  moreover have "verifyLicense test_platform host_1 not_found 1735776000000 1735776000100 True
        activated_1
       = (activated_1,
          [Post (Verify ''ABC-123'' ''sha256:CPU-A-till-1-aa:bb:cc:dd:ee:01'' ''1.0.0''),
           ConsoleError ''License verification error:''],
          \<lparr>valid = False, message = ''License key not recognised'', info = None\<rparr>)"
    using t [of True] by (simp add: k hw_1 or_default_def)
  ultimately show ?thesis using a b c local_checks_1 by blast
qed

subsection \<open>deactivateLicense\<close>

text \<open>
  C5. In every state a handler can be in, \<open>deactivateLicense\<close> returns a result and
  leaves no stored license in memory and none that a handler could load from disk: the
  file is deleted whenever a license was held, and stays absent when there was none.
  (With no license in memory the method returns before it looks at the file, so a file
  that was unreadable when the handler started is left where it is; it still loads as
  no license.) The state and the result are the same whether the notification of the
  server succeeds or fails, and a second call changes nothing, sends nothing and
  returns \<open>No license found\<close>.
\<close>

theorem deactivate_idempotent:
  assumes "reachable P st"
  shows "storedLicense (fst (deactivateLicense P h server st)) = None
    \<and> persisted P (fst (deactivateLicense P h server st)) = None
    \<and> (storedLicense st \<noteq> None \<or> LICENSE_FILE st = None
        \<longrightarrow> LICENSE_FILE (fst (deactivateLicense P h server st)) = None)
    \<and> fst (deactivateLicense P h server st) = fst (deactivateLicense P h server' st)
    \<and> snd (snd (deactivateLicense P h server st))
        = snd (snd (deactivateLicense P h server' st))
    \<and> deactivateLicense P h' server' (fst (deactivateLicense P h server st))
        = (fst (deactivateLicense P h server st), [],
           \<lparr>success = False, d_message = ''No license found''\<rparr>)"
proof -
  let ?st1 = "fst (deactivateLicense P h server st)"
  have s1: "storedLicense ?st1 = None"
    by (simp add: deactivateLicense_state split: option.splits)
  have "reachable P ?st1"
    using assms by (rule reachable.deactivate)
  then have p1: "persisted P ?st1 = None"
    using s1 by (rule reachable_absent_on_disk)
  have f1: "storedLicense st \<noteq> None \<or> LICENSE_FILE st = None
        \<longrightarrow> LICENSE_FILE ?st1 = None"
    by (auto simp add: deactivateLicense_state split: option.splits)
  have i1: "?st1 = fst (deactivateLicense P h server' st)"
    by (simp add: deactivateLicense_state)
  have r1: "snd (snd (deactivateLicense P h server st))
        = snd (snd (deactivateLicense P h server' st))"
    by (simp add: deactivateLicense_def Let_def split: option.splits)
  have d2: "deactivateLicense P h' server' ?st1
        = (?st1, [], \<lparr>success = False, d_message = ''No license found''\<rparr>)"
    using s1 by (simp add: deactivateLicense_def [of P h' server'])
  from s1 p1 f1 i1 r1 d2 show ?thesis by blast
qed

text \<open>
  A fresh installation with no license file, and the same installation after a
  successful activation, deactivated while the server is unreachable.
\<close>

theorem deactivate_idempotent_witness:
  "reachable test_platform (fst (new_LicenseHandler test_platform None))
   \<and> reachable test_platform activated_1
   \<and> deactivateLicense test_platform host_1 unreachable
        (fst (new_LicenseHandler test_platform None))
       = (\<lparr>storedLicense = None, LICENSE_FILE = None\<rparr>, [],
          \<lparr>success = False, d_message = ''No license found''\<rparr>)
   \<and> fst (deactivateLicense test_platform host_1 unreachable activated_1)
       = \<lparr>storedLicense = None, LICENSE_FILE = None\<rparr>
   \<and> persisted test_platform (fst (deactivateLicense test_platform host_1 unreachable activated_1))
       = None
   \<and> deactivateLicense test_platform host_1 unreachable
        (fst (deactivateLicense test_platform host_1 unreachable activated_1))
       = (\<lparr>storedLicense = None, LICENSE_FILE = None\<rparr>, [],
          \<lparr>success = False, d_message = ''No license found''\<rparr>)"
proof -
  have r0: "reachable test_platform (fst (new_LicenseHandler test_platform None))"
    by (rule reachable.start)
  have r1: "reachable test_platform activated_1"
    using reachable.activate [OF r0, of host_1 granting 1735689600000 1735689600000 "''ABC-123''"]
    by (simp only: activate_fresh_install)
  have n: "fst (new_LicenseHandler test_platform None)
             = \<lparr>storedLicense = None, LICENSE_FILE = None\<rparr>"
    by (simp add: new_LicenseHandler_def loadStoredLicense_def)
  note t0 = deactivate_idempotent [OF r0, of host_1 unreachable unreachable host_1]
  note t1 = deactivate_idempotent [OF r1, of host_1 unreachable unreachable host_1]
  have a: "storedLicense activated_1 \<noteq> None"
    by (simp add: activated_1_def)
  have s1: "fst (deactivateLicense test_platform host_1 unreachable activated_1)
       = \<lparr>storedLicense = None, LICENSE_FILE = None\<rparr>"
  proof -
    from t1 a have "storedLicense (fst (deactivateLicense test_platform host_1 unreachable activated_1)) = None"
      and "LICENSE_FILE (fst (deactivateLicense test_platform host_1 unreachable activated_1)) = None"
      by blast+
    then show ?thesis by simp
  qed
  have d0: "deactivateLicense test_platform host_1 unreachable
        (fst (new_LicenseHandler test_platform None))
       = (\<lparr>storedLicense = None, LICENSE_FILE = None\<rparr>, [],
          \<lparr>success = False, d_message = ''No license found''\<rparr>)"
    by (simp add: n deactivateLicense_def)
  from t1 have p1: "persisted test_platform
      (fst (deactivateLicense test_platform host_1 unreachable activated_1)) = None"
    by blast
  from t1 have d2: "deactivateLicense test_platform host_1 unreachable
        (fst (deactivateLicense test_platform host_1 unreachable activated_1))
       = (\<lparr>storedLicense = None, LICENSE_FILE = None\<rparr>, [],
          \<lparr>success = False, d_message = ''No license found''\<rparr>)"
    by (simp add: s1)
  from r0 r1 d0 s1 p1 d2 show ?thesis by blast
qed

subsection \<open>The license store\<close>

text \<open>
  C7. Let the platform's decipher undo its cipher under the same algorithm, key and
  initialisation vector, and let \<open>JSON.parse\<close> give back the record \<open>JSON.stringify\<close>
  was given. Then \<open>decrypt\<close> gives back the text \<open>encrypt\<close> was given, and after
  \<open>saveStoredLicense\<close> both \<open>loadStoredLicense\<close> and the constructor of a new handler
  started on the saved file hold the record that was saved, equal in all fields, with
  nothing logged.
\<close>

theorem save_load_round_trip:
  assumes "\<forall>alg k iv s. decipher P alg k iv (cipher P alg k iv s) = Returns s"
    and "JSON_parse P (JSON_stringify P r) = Returns (Some r)"
    and "storedLicense st = Some r"
  shows "decrypt P (encrypt P (JSON_stringify P r)) = Returns (JSON_stringify P r)
    \<and> loadStoredLicense P (saveStoredLicense P st) = (saveStoredLicense P st, [])
    \<and> storedLicense (saveStoredLicense P st) = Some r
    \<and> new_LicenseHandler P (LICENSE_FILE (saveStoredLicense P st))
        = (\<lparr>storedLicense = Some r, LICENSE_FILE = LICENSE_FILE (saveStoredLicense P st)\<rparr>, [])"
proof -
  have d: "decrypt P (encrypt P (JSON_stringify P r)) = Returns (JSON_stringify P r)"
    using assms(1) by (rule decrypt_encrypt)
  have f: "LICENSE_FILE (saveStoredLicense P st) = Some (encrypt P (JSON_stringify P r))"
    using assms(3) by (simp add: saveStoredLicense_def)
  have s: "storedLicense (saveStoredLicense P st) = Some r"
    using assms(3) by (simp add: saveStoredLicense_def)
  have l: "loadStoredLicense P (saveStoredLicense P st) = (saveStoredLicense P st, [])"
    using s by (simp add: loadStoredLicense_def f d assms(2))
  have n: "new_LicenseHandler P (LICENSE_FILE (saveStoredLicense P st))
        = (\<lparr>storedLicense = Some r, LICENSE_FILE = LICENSE_FILE (saveStoredLicense P st)\<rparr>, [])"
    by (simp add: new_LicenseHandler_def loadStoredLicense_def f d assms(2))
  from d l s n show ?thesis by blast
qed

text \<open>The test license saved and loaded on the test platform.\<close>

theorem save_load_round_trip_witness:
  "(\<forall>alg k iv s. decipher test_platform alg k iv (cipher test_platform alg k iv s) = Returns s)
   \<and> JSON_parse test_platform (JSON_stringify test_platform license_1) = Returns (Some license_1)
   \<and> storedLicense \<lparr>storedLicense = Some license_1, LICENSE_FILE = None\<rparr> = Some license_1
   \<and> saveStoredLicense test_platform \<lparr>storedLicense = Some license_1, LICENSE_FILE = None\<rparr>
       = activated_1
   \<and> new_LicenseHandler test_platform (LICENSE_FILE activated_1) = (activated_1, [])"
proof -
  have a: "storedLicense \<lparr>storedLicense = Some license_1, LICENSE_FILE = None\<rparr> = Some license_1"
    by simp
  have sv: "saveStoredLicense test_platform \<lparr>storedLicense = Some license_1, LICENSE_FILE = None\<rparr>
       = activated_1"
    by (simp add: saveStoredLicense_def encrypt_def activated_1_def) (simp add: test_platform_def)
  from save_load_round_trip [OF test_cipher_inverse test_json_inverse a]
  have "new_LicenseHandler test_platform (LICENSE_FILE activated_1) = (activated_1, [])"
    by (simp add: sv)
  with test_cipher_inverse test_json_inverse a sv show ?thesis by blast
qed

text \<open>
  C8. When the license file is missing, cannot be decrypted, or decrypts to something
  that is not JSON, the constructor leaves \<open>storedLicense\<close> empty and the file as it
  found it; nothing is thrown, the failure is only written to the console (and a
  missing file is not even that). The handler then behaves as unactivated:
  \<open>verifyLicense\<close> answers \<open>No license found\<close> without sending a request.
\<close>

theorem load_absent_when_missing_or_corrupt:
  assumes "disk = None \<or> (\<exists>encrypted. disk = Some encrypted \<and> corrupt P encrypted)"
  shows "fst (new_LicenseHandler P disk) = \<lparr>storedLicense = None, LICENSE_FILE = disk\<rparr>
    \<and> snd (new_LicenseHandler P disk)
        = (if disk = None then [] else [ConsoleError ''Failed to load license:''])
    \<and> verifyLicense P h server t_check t_reply silent (fst (new_LicenseHandler P disk))
        = (fst (new_LicenseHandler P disk), [],
           \<lparr>valid = False, message = ''No license found'', info = None\<rparr>)"
proof -
  have n: "new_LicenseHandler P disk
       = (\<lparr>storedLicense = None, LICENSE_FILE = disk\<rparr>,
          if disk = None then [] else [ConsoleError ''Failed to load license:''])"
  proof (cases disk)
    case None
    then show ?thesis
      by (simp add: new_LicenseHandler_def loadStoredLicense_def)
  next
    case (Some encrypted)
    with assms have c: "corrupt P encrypted" by simp
    show ?thesis
    proof (cases "decrypt P encrypted")
      case Throws
      with Some show ?thesis
        by (simp add: new_LicenseHandler_def loadStoredLicense_def)
    next
      case (Returns decrypted)
      with c have "JSON_parse P decrypted = Throws"
        by (simp add: corrupt_def split: attempt.splits)
      with Some Returns show ?thesis
        by (simp add: new_LicenseHandler_def loadStoredLicense_def)
    qed
  qed
  then show ?thesis by (simp add: verifyLicense_def)
qed

text \<open>
  No file; a file that does not decrypt; a file that decrypts to text that does not
  parse.
\<close>

theorem load_absent_when_missing_or_corrupt_witness:
  "corrupt test_platform ''garbage'' \<and> corrupt test_platform ''x}traeh''
   \<and> new_LicenseHandler test_platform None = (\<lparr>storedLicense = None, LICENSE_FILE = None\<rparr>, [])
   \<and> new_LicenseHandler test_platform (Some ''garbage'')
       = (\<lparr>storedLicense = None, LICENSE_FILE = Some ''garbage''\<rparr>,
          [ConsoleError ''Failed to load license:''])
   \<and> new_LicenseHandler test_platform (Some ''x}traeh'')
       = (\<lparr>storedLicense = None, LICENSE_FILE = Some ''x}traeh''\<rparr>,
          [ConsoleError ''Failed to load license:''])
   \<and> snd (snd (verifyLicense test_platform host_1 granting 1735689600000 1735689600000 False
        (fst (new_LicenseHandler test_platform (Some ''garbage'')))))
       = \<lparr>valid = False, message = ''No license found'', info = None\<rparr>"
proof -
  have m: "(None :: string option) = None \<or> (\<exists>encrypted. None = Some encrypted \<and> corrupt test_platform encrypted)"
    by simp
  have g: "Some ''garbage'' = None \<or> (\<exists>encrypted. Some ''garbage'' = Some encrypted \<and> corrupt test_platform encrypted)"
    using corrupt_garbage by simp
  have j: "Some ''x}traeh'' = None \<or> (\<exists>encrypted. Some ''x}traeh'' = Some encrypted \<and> corrupt test_platform encrypted)"
    using corrupt_not_json by simp
  from load_absent_when_missing_or_corrupt [OF m]
  have 1: "new_LicenseHandler test_platform None = (\<lparr>storedLicense = None, LICENSE_FILE = None\<rparr>, [])"
    by (simp add: prod_eq_iff)
  from load_absent_when_missing_or_corrupt [OF g]
  have 2: "new_LicenseHandler test_platform (Some ''garbage'')
       = (\<lparr>storedLicense = None, LICENSE_FILE = Some ''garbage''\<rparr>,
          [ConsoleError ''Failed to load license:''])"
    by (simp add: prod_eq_iff)
  from load_absent_when_missing_or_corrupt [OF j]
  have 3: "new_LicenseHandler test_platform (Some ''x}traeh'')
       = (\<lparr>storedLicense = None, LICENSE_FILE = Some ''x}traeh''\<rparr>,
          [ConsoleError ''Failed to load license:''])"
    by (simp add: prod_eq_iff)
  from load_absent_when_missing_or_corrupt [OF g, of host_1 granting 1735689600000 1735689600000 False]
  have "verifyLicense test_platform host_1 granting 1735689600000 1735689600000 False
          (fst (new_LicenseHandler test_platform (Some ''garbage'')))
        = (fst (new_LicenseHandler test_platform (Some ''garbage'')), [],
           \<lparr>valid = False, message = ''No license found'', info = None\<rparr>)"
    by blast
  then have 4: "snd (snd (verifyLicense test_platform host_1 granting 1735689600000 1735689600000 False
        (fst (new_LicenseHandler test_platform (Some ''garbage'')))))
       = \<lparr>valid = False, message = ''No license found'', info = None\<rparr>"
    by simp
  from corrupt_garbage corrupt_not_json 1 2 3 4 show ?thesis by blast
qed

subsection \<open>hasFeature and needsRenewal\<close>

text \<open>
  C9. With no stored license, as on an installation that was never activated,
  \<open>hasFeature\<close> is false for every name, the empty one included; with a stored license
  it is true exactly for the members of the cached \<open>features\<close>. It is a total function:
  no input makes it throw.
\<close>

theorem hasFeature_membership:
  "hasFeature (st\<lparr>storedLicense := None\<rparr>) name = False
   \<and> hasFeature (fst (new_LicenseHandler P None)) name = False
   \<and> hasFeature (st\<lparr>storedLicense := Some r\<rparr>) name
       = (name \<in> set (features (licenseInfo r)))"
  by (simp add: hasFeature_def new_LicenseHandler_def loadStoredLicense_def
      includes_set)

text \<open>The test installation before and after activation.\<close>

theorem hasFeature_membership_witness:
  "hasFeature (fst (new_LicenseHandler test_platform None)) '''' = False
   \<and> hasFeature (fst (new_LicenseHandler test_platform None)) ''export'' = False
   \<and> hasFeature activated_1 ''export'' = True
   \<and> hasFeature activated_1 ''reports'' = False
   \<and> hasFeature activated_1 '''' = False"
proof -
  have a: "activated_1\<lparr>storedLicense := Some license_1\<rparr> = activated_1"
    by (simp add: activated_1_def)
  have f: "features (licenseInfo license_1) = [''export'']"
    by (simp add: license_1_def info_1_def)
  from hasFeature_membership [of activated_1 "''''" test_platform license_1]
    hasFeature_membership [of activated_1 "''export''" test_platform license_1]
    hasFeature_membership [of activated_1 "''reports''" test_platform license_1]
  show ?thesis by (simp add: a f)
qed

text \<open>
  C10. \<open>needsRenewal\<close> is false with no stored license; with one it compares the cached
  \<open>days_remaining\<close> with the threshold (30 when none is given) and is true exactly when
  \<open>days_remaining\<close> is at most the threshold. Changing \<open>expires_at\<close> does not change
  the answer.
\<close>

theorem needsRenewal_days_remaining:
  "needsRenewal (st\<lparr>storedLicense := None\<rparr>) threshold = False
   \<and> needsRenewal (st\<lparr>storedLicense := Some r\<rparr>) (Some d)
       = (days_remaining (licenseInfo r) \<le> d)
   \<and> needsRenewal (st\<lparr>storedLicense := Some r\<rparr>) None
       = (days_remaining (licenseInfo r) \<le> 30)
   \<and> needsRenewal (st\<lparr>storedLicense :=
         Some (r\<lparr>licenseInfo := (licenseInfo r)\<lparr>expires_at := x\<rparr>\<rparr>)\<rparr>) threshold
       = needsRenewal (st\<lparr>storedLicense := Some r\<rparr>) threshold"
  by (simp add: needsRenewal_def)

text \<open>
  The test license has 31 days remaining: no renewal needed at the default threshold,
  needed at 31, and still not needed when its expiry date is moved into the past.
\<close>

theorem needsRenewal_days_remaining_witness:
  "needsRenewal (fst (new_LicenseHandler test_platform None)) None = False
   \<and> needsRenewal activated_1 None = False
   \<and> needsRenewal activated_1 (Some 31) = True
   \<and> needsRenewal (activated_1\<lparr>storedLicense :=
        Some (license_1\<lparr>licenseInfo := info_1\<lparr>expires_at := ''2025-01-01T00:00:00.000Z''\<rparr>\<rparr>)\<rparr>)
        None = False"
proof -
  have a: "activated_1\<lparr>storedLicense := Some license_1\<rparr> = activated_1"
    by (simp add: activated_1_def)
  have n: "fst (new_LicenseHandler test_platform None)\<lparr>storedLicense := None\<rparr>
             = fst (new_LicenseHandler test_platform None)"
    by (simp add: new_LicenseHandler_def loadStoredLicense_def)
  have f: "days_remaining info_1 = 31" "licenseInfo license_1 = info_1"
    by (simp_all add: license_1_def info_1_def)
  from needsRenewal_days_remaining [of "fst (new_LicenseHandler test_platform None)" None license_1 31 "''2025-01-01T00:00:00.000Z''"]
    needsRenewal_days_remaining [of activated_1 None license_1 31 "''2025-01-01T00:00:00.000Z''"]
  show ?thesis by (simp add: a n f)
qed

end
